theory Spec2Isabelle
  imports Complex_Main "HOL-Library.AList"
begin

section \<open>Python values\<close>

text \<open>
  The values that \<^verbatim>\<open>json.loads\<close> and \<^verbatim>\<open>json.load\<close> produce and that
  a langchain \<^verbatim>\<open>Document.metadata\<close> dictionary holds. A Python dict is an association
  list: \<^verbatim>\<open>d.get(k)\<close> is \<open>map_of d k\<close> and \<^verbatim>\<open>d[k] = v\<close> is \<open>AList.update k v d\<close>.
  Floats are carried as reals (NaN and the infinities are outside the model).
\<close>

datatype json =
    JNull
  | JBool bool
  | JInt int
  | JFloat real
  | JStr string
  | JList "json list"
  | JDict "(string \<times> json) list"

type_synonym dict = "(string \<times> json) list"

text \<open>Python truthiness, as \<^verbatim>\<open>if not file_path\<close> reads it.\<close>

fun truthy :: "json \<Rightarrow> bool" where
  "truthy JNull = False"
| "truthy (JBool b) = b"
| "truthy (JInt i) = (i \<noteq> 0)"
| "truthy (JFloat r) = (r \<noteq> 0)"
| "truthy (JStr s) = (s \<noteq> [])"
| "truthy (JList xs) = (xs \<noteq> [])"
| "truthy (JDict kvs) = (kvs \<noteq> [])"

text \<open>\<^verbatim>\<open>d.get(k)\<close> and \<^verbatim>\<open>d.get(k, default)\<close>.\<close>

definition get_default :: "dict \<Rightarrow> string \<Rightarrow> json \<Rightarrow> json" where
  "get_default d k dflt = (case map_of d k of None \<Rightarrow> dflt | Some v \<Rightarrow> v)"

definition get :: "dict \<Rightarrow> string \<Rightarrow> json" where
  "get d k = get_default d k JNull"

definition nl :: string where
  "nl = [CHR 0x0A]"

text \<open>\<^verbatim>\<open>sep.join(xs)\<close>\<close>

fun join :: "string \<Rightarrow> string list \<Rightarrow> string" where
  "join sep [] = []"
| "join sep [x] = x"
| "join sep (x # y # ys) = x @ sep @ join sep (y # ys)"

text \<open>\<^verbatim>\<open>s.endswith(suf)\<close>\<close>

definition endswith :: "string \<Rightarrow> string \<Rightarrow> bool" where
  "endswith s suf = (length suf \<le> length s \<and> drop (length s - length suf) s = suf)"

text \<open>\<^verbatim>\<open>str(n)\<close> for a non-negative integer, as the f-strings format \<^verbatim>\<open>len(files)\<close>.\<close>

fun str_nat :: "nat \<Rightarrow> string" where
  "str_nat n =
     (if n < 10 then [''0123456789'' ! n]
      else str_nat (n div 10) @ [''0123456789'' ! (n mod 10)])"

declare str_nat.simps [simp del]

section \<open>Data model\<close>

text \<open>langchain's \<^verbatim>\<open>Document\<close>: a page or a chunk.\<close>

record document =
  page_content :: string
  metadata :: dict

record Signatory =
  name :: string
  title :: "string option"

record LiabilityCap =
  amount :: "real option"
  currency :: "string option"

text \<open>
  \<^verbatim>\<open>class ContractFields(BaseModel)\<close>. The fields \<^verbatim>\<open>term\<close> and \<^verbatim>\<open>termination\<close>
  are named \<open>contract_term\<close> and \<open>termination_clause\<close> here.
\<close>

record ContractFields =
  parties :: "string list"
  effective_date :: "string option"
  contract_term :: "string option"
  governing_law :: "string option"
  payment_terms :: "string option"
  termination_clause :: "string option"
  auto_renewal :: "string option"
  confidentiality :: "string option"
  indemnity :: "string option"
  liability_cap :: "LiabilityCap option"
  signatories :: "Signatory list"

text \<open>\<^verbatim>\<open>ContractFields()\<close>: every field at its default.\<close>

definition ContractFields_default :: ContractFields where
  "ContractFields_default =
     \<lparr>parties = [], effective_date = None, contract_term = None, governing_law = None,
      payment_terms = None, termination_clause = None, auto_renewal = None,
      confidentiality = None, indemnity = None, liability_cap = None, signatories = []\<rparr>"

record RiskFinding =
  risk_type :: string
  severity :: string
  description :: string
  evidence :: string
  recommendation :: "string option"

text \<open>The response models, with the fields in the order of the class.\<close>

datatype IngestResponse = IngestResponse "string list" string nat
  \<comment> \<open>document_ids, message, total_chunks\<close>

datatype ExtractResponse = ExtractResponse string ContractFields
  \<comment> \<open>document_id, fields\<close>

datatype Citation = Citation string "int option" string
  \<comment> \<open>document_id, page, content\<close>

datatype AskResponse = AskResponse string string "Citation list"
  \<comment> \<open>question, answer, citations\<close>

datatype AuditResponse = AuditResponse string nat "RiskFinding list" string
  \<comment> \<open>document_id, total_risks, findings, audit_date\<close>

datatype MetricsResponse = MetricsResponse nat nat nat nat nat
  \<comment> \<open>total_documents, total_ingestions, total_extractions, total_questions, total_audits\<close>

record UploadFile =
  filename :: string
  content :: string

section \<open>Exceptions\<close>

text \<open>
  \<open>HTTPException status_code detail\<close> is FastAPI's exception, \<open>JSONDecodeError\<close> the one
  \<^verbatim>\<open>json.loads\<close> raises, and \<open>Exception cls\<close> any other exception, with the name of
  its class. A function that can raise returns \<open>exn + 'a\<close>.
\<close>

datatype exn =
    HTTPException nat string
  | JSONDecodeError
  | Exception string

section \<open>The external services\<close>

text \<open>
  The three fixed system messages of the language-model calls (question answering, field
  extraction, risk audit). A call is the system message and the content of the human message.
\<close>

datatype system_message = QA_SYSTEM | EXTRACT_SYSTEM | AUDIT_SYSTEM

type_synonym messages = "system_message \<times> string"

text \<open>
  What the code calls and does not define: the UUID generator, the clock, the PDF parser, the
  text splitter, the embedding and vector index, the chat model, the JSON parser and the
  pydantic validators. \<open>None\<close> is a call that raises. \<open>uuid4 n\<close> and \<open>now_isoformat n\<close>
  are what the \<open>n\<close>-th call returns.

  The operating system resolves a path: \<open>realpath p\<close> is the file that the path \<open>p\<close>
  names, the same for two paths that name the same file (as \<^verbatim>\<open>contract_metadata/u.json\<close>
  and \<^verbatim>\<open>contract_metadata/./u.json\<close>), and \<open>isdir p\<close> says that \<open>p\<close> names a
  directory. The program creates no directory after its start, so both are fixed.
\<close>

text \<open>
  What a file holds: the bytes written to it in binary mode, or the value that
  \<^verbatim>\<open>json.dump\<close> wrote to it, which \<^verbatim>\<open>json.load\<close> reads back.
\<close>

datatype file_data = Bytes string | Json json

record env =
  uuid4 :: "nat \<Rightarrow> string"
  now_isoformat :: "nat \<Rightarrow> string"
  open_wb :: "string \<Rightarrow> bool"
    \<comment> \<open>whether \<^verbatim>\<open>open(path, "wb")\<close> succeeds\<close>
  realpath :: "string \<Rightarrow> string"
  isdir :: "string \<Rightarrow> bool"
  PyPDFLoader :: "string \<Rightarrow> file_data \<Rightarrow> document list option"
    \<comment> \<open>the pages of the file at a path, from the path and what the file holds\<close>
  split_documents :: "document list \<Rightarrow> document list"
  from_documents :: "document list \<Rightarrow> bool"
    \<comment> \<open>whether embedding and storing the chunks succeeds\<close>
  similarity_search :: "document list \<Rightarrow> string \<Rightarrow> nat \<Rightarrow> document list option"
    \<comment> \<open>on the stored chunks, the query and the number of results asked for\<close>
  llm :: "messages \<Rightarrow> string option"
  json_loads :: "string \<Rightarrow> json option"
    \<comment> \<open>\<open>None\<close>: \<^verbatim>\<open>JSONDecodeError\<close>\<close>
  ContractFields_validate :: "dict \<Rightarrow> ContractFields option"
  RiskFinding_validate :: "dict \<Rightarrow> RiskFinding option"
  coerce_str :: "json \<Rightarrow> string option"
    \<comment> \<open>pydantic on a value that is not a string, for a \<^verbatim>\<open>str\<close> field\<close>
  coerce_optional_int :: "json \<Rightarrow> int option option"
    \<comment> \<open>pydantic on a value that is neither None nor an int, for an \<^verbatim>\<open>Optional[int]\<close> field\<close>
  exn_str :: "exn \<Rightarrow> string"
    \<comment> \<open>\<^verbatim>\<open>str(e)\<close>\<close>

section \<open>The state of the process and of the disk\<close>

text \<open>
  \<open>disk\<close> is the file system: what each file holds, under its \<open>realpath\<close>. The metadata
  files and the uploaded PDFs are both there. \<open>chroma\<close> is the persisted vector index,
  \<open>llm_log\<close> the calls made to the chat model so far.
\<close>

record state =
  disk :: "string \<rightharpoonup> file_data"
  chroma :: "document list"
  document_registry :: "string \<rightharpoonup> dict"
  total_ingestions :: nat
  total_extractions :: nat
  total_questions :: nat
  total_audits :: nat
  total_streams :: nat
  llm_log :: "messages list"
  uuid_calls :: nat
  clock_calls :: nat

definition CHROMA_DIR :: string where "CHROMA_DIR = ''chroma_store''"
definition UPLOAD_DIR :: string where "UPLOAD_DIR = ''uploaded_contracts''"
definition METADATA_DIR :: string where "METADATA_DIR = ''contract_metadata''"

section \<open>Helper functions\<close>

text \<open>\<^verbatim>\<open>Path(METADATA_DIR) / f"{document_id}.json"\<close>\<close>

definition metadata_path :: "string \<Rightarrow> string" where
  "metadata_path document_id = METADATA_DIR @ ''/'' @ document_id @ ''.json''"

text \<open>\<^verbatim>\<open>Path(p).exists()\<close>: a directory or a file is there.\<close>

definition path_exists :: "env \<Rightarrow> state \<Rightarrow> string \<Rightarrow> bool" where
  "path_exists e s p = (isdir e p \<or> disk s (realpath e p) \<noteq> None)"

definition save_document_metadata :: "env \<Rightarrow> string \<Rightarrow> dict \<Rightarrow> state \<Rightarrow> state" where
  "save_document_metadata e document_id md s =
     s\<lparr>disk := (disk s)(realpath e (metadata_path document_id) \<mapsto> Json (JDict md))\<rparr>"

text \<open>
  \<^verbatim>\<open>json.load\<close> gives whatever value the file holds, a dictionary or not; on a path
  that exists and is no file \<^verbatim>\<open>open\<close> raises, on bytes that are no JSON text
  \<^verbatim>\<open>json.load\<close> does.
\<close>

definition load_document_metadata :: "env \<Rightarrow> state \<Rightarrow> string \<Rightarrow> exn + json" where
  "load_document_metadata e s document_id =
     (if \<not> path_exists e s (metadata_path document_id)
      then Inl (HTTPException 404 (''Document '' @ document_id @ '' not found''))
      else
        (case disk s (realpath e (metadata_path document_id)) of
           None \<Rightarrow> Inl (Exception ''IsADirectoryError'')
         | Some (Json md) \<Rightarrow> Inr md
         | Some (Bytes b) \<Rightarrow>
             (case json_loads e b of
                None \<Rightarrow> Inl JSONDecodeError
              | Some md \<Rightarrow> Inr md)))"

definition load_pdf :: "env \<Rightarrow> state \<Rightarrow> string \<Rightarrow> exn + document list" where
  "load_pdf e s file_path =
     (case disk s (realpath e file_path) of
        None \<Rightarrow> Inl (Exception ''ValueError'')
      | Some f \<Rightarrow>
          (case PyPDFLoader e file_path f of
             None \<Rightarrow> Inl (Exception ''PdfReadError'')
           | Some pages \<Rightarrow> Inr pages))"

definition chunk_documents :: "env \<Rightarrow> document list \<Rightarrow> document list" where
  "chunk_documents e documents = split_documents e documents"

text \<open>The loop of \<^verbatim>\<open>create_vector_db\<close>: \<^verbatim>\<open>chunk.metadata["document_id"] = document_id\<close>.\<close>

definition tag_chunk :: "string \<Rightarrow> document \<Rightarrow> document" where
  "tag_chunk document_id chunk =
     chunk\<lparr>metadata := AList.update ''document_id'' (JStr document_id) (metadata chunk)\<rparr>"

definition create_vector_db :: "env \<Rightarrow> state \<Rightarrow> document list \<Rightarrow> string \<Rightarrow> (exn + document list) \<times> state" where
  "create_vector_db e s chunks document_id =
     (let tagged = map (tag_chunk document_id) chunks in
      if from_documents e tagged
      then (Inr (chroma s @ tagged), s\<lparr>chroma := chroma s @ tagged\<rparr>)
      else (Inl (Exception ''APIError''), s))"

definition load_vector_db :: "state \<Rightarrow> document list" where
  "load_vector_db s = chroma s"

text \<open>A call of the chat model: it is logged, and it returns the content or raises.\<close>

definition call_llm :: "env \<Rightarrow> state \<Rightarrow> messages \<Rightarrow> (exn + string) \<times> state" where
  "call_llm e s msgs =
     (case llm e msgs of
        None \<Rightarrow> (Inl (Exception ''APIError''), s\<lparr>llm_log := llm_log s @ [msgs]\<rparr>)
      | Some c \<Rightarrow> (Inr c, s\<lparr>llm_log := llm_log s @ [msgs]\<rparr>))"


section \<open>Question answering\<close>

text \<open>\<^verbatim>\<open>doc.metadata.get("document_id") in document_ids\<close>, for a list of strings.\<close>

definition in_allow_list :: "document \<Rightarrow> string list \<Rightarrow> bool" where
  "in_allow_list doc document_ids =
     (case get (metadata doc) ''document_id'' of
        JStr i \<Rightarrow> i \<in> set document_ids
      | _ \<Rightarrow> False)"

text \<open>
  The loop of \<^verbatim>\<open>ask_question\<close> over \<^verbatim>\<open>all_docs\<close>, with \<^verbatim>\<open>docs\<close> as the
  accumulator and the \<^verbatim>\<open>break\<close> as the end of the recursion.
\<close>

fun filter_loop :: "nat \<Rightarrow> string list \<Rightarrow> document list \<Rightarrow> document list \<Rightarrow> document list" where
  "filter_loop k document_ids docs [] = docs"
| "filter_loop k document_ids docs (doc # all_docs) =
     (if in_allow_list doc document_ids
      then (if length (docs @ [doc]) \<ge> k
            then docs @ [doc]
            else filter_loop k document_ids (docs @ [doc]) all_docs)
      else filter_loop k document_ids docs all_docs)"

text \<open>The retrieval step of \<^verbatim>\<open>ask_question\<close> (and of \<^verbatim>\<open>stream_answer\<close>).\<close>

definition retrieve :: "env \<Rightarrow> document list \<Rightarrow> string \<Rightarrow> nat \<Rightarrow> string list option \<Rightarrow> exn + document list" where
  "retrieve e vectordb query k document_ids =
     (case document_ids of
        Some (i # ids) \<Rightarrow>
          (case similarity_search e vectordb query (k * 5) of
             None \<Rightarrow> Inl (Exception ''ChromaError'')
           | Some all_docs \<Rightarrow> Inr (filter_loop k (i # ids) [] all_docs))
      | _ \<Rightarrow>
          (case similarity_search e vectordb query k of
             None \<Rightarrow> Inl (Exception ''ChromaError'')
           | Some docs \<Rightarrow> Inr docs))"

definition ask_question ::
  "env \<Rightarrow> state \<Rightarrow> string \<Rightarrow> document list \<Rightarrow> nat \<Rightarrow> string list option
     \<Rightarrow> (exn + string \<times> document list) \<times> state" where
  "ask_question e s query vectordb k document_ids =
     (case retrieve e vectordb query k document_ids of
        Inl ex \<Rightarrow> (Inl ex, s)
      | Inr docs \<Rightarrow>
          if docs = []
          then (Inr (''No relevant information found in the specified documents.'', []), s)
          else
            (let context = join (nl @ nl) (map page_content docs) in
             case call_llm e s (QA_SYSTEM, ''Context:'' @ nl @ context @ nl @ nl @ ''Question: '' @ query) of
               (Inl ex, s') \<Rightarrow> (Inl ex, s')
             | (Inr answer, s') \<Rightarrow> (Inr (answer, docs), s')))"

text \<open>
  pydantic on the fields of a \<^verbatim>\<open>Citation\<close>: a string is a valid \<^verbatim>\<open>str\<close>, None and
  an int are valid for \<^verbatim>\<open>Optional[int]\<close>; any other value is the library's to coerce or
  refuse.
\<close>

definition pydantic_str :: "env \<Rightarrow> json \<Rightarrow> string option" where
  "pydantic_str e v = (case v of JStr x \<Rightarrow> Some x | _ \<Rightarrow> coerce_str e v)"

definition pydantic_optional_int :: "env \<Rightarrow> json \<Rightarrow> int option option" where
  "pydantic_optional_int e v =
     (case v of JNull \<Rightarrow> Some None | JInt i \<Rightarrow> Some (Some i) | _ \<Rightarrow> coerce_optional_int e v)"

definition make_Citation :: "env \<Rightarrow> document \<Rightarrow> exn + Citation" where
  "make_Citation e doc =
     (case pydantic_str e (get_default (metadata doc) ''document_id'' (JStr ''unknown'')) of
        None \<Rightarrow> Inl (Exception ''ValidationError'')
      | Some i \<Rightarrow>
          (case pydantic_optional_int e (get_default (metadata doc) ''page'' JNull) of
             None \<Rightarrow> Inl (Exception ''ValidationError'')
           | Some p \<Rightarrow> Inr (Citation i p (take 200 (page_content doc)))))"

text \<open>The loop of \<^verbatim>\<open>ask_question_api\<close> that builds the citations.\<close>

fun build_citations :: "env \<Rightarrow> Citation list \<Rightarrow> document list \<Rightarrow> exn + Citation list" where
  "build_citations e citations [] = Inr citations"
| "build_citations e citations (doc # docs) =
     (case make_Citation e doc of
        Inl ex \<Rightarrow> Inl ex
      | Inr citation \<Rightarrow> build_citations e (citations @ [citation]) docs)"

text \<open>The validation loop of \<^verbatim>\<open>ask_question_api\<close>: the first identifier with no metadata file.\<close>

definition first_unknown :: "env \<Rightarrow> state \<Rightarrow> string list option \<Rightarrow> string option" where
  "first_unknown e s document_ids =
     (case document_ids of
        None \<Rightarrow> None
      | Some ids \<Rightarrow> find (\<lambda>doc_id. \<not> path_exists e s (metadata_path doc_id)) ids)"

text \<open>
  The two \<^verbatim>\<open>except\<close> clauses of the extract, ask and audit endpoints: an
  \<^verbatim>\<open>HTTPException\<close> is raised again, any other exception becomes a 500.
\<close>

definition reraise :: "env \<Rightarrow> string \<Rightarrow> exn \<Rightarrow> exn" where
  "reraise e prefix ex =
     (case ex of
        HTTPException status detail \<Rightarrow> HTTPException status detail
      | _ \<Rightarrow> HTTPException 500 (prefix @ exn_str e ex))"

definition ask_question_api ::
  "env \<Rightarrow> state \<Rightarrow> string \<Rightarrow> string list option \<Rightarrow> nat \<Rightarrow> (exn + AskResponse) \<times> state" where
  "ask_question_api e s question document_ids k =
     (let vectordb = load_vector_db s in
      case first_unknown e s document_ids of
        Some doc_id \<Rightarrow>
          (Inl (reraise e ''Error answering question: ''
                  (HTTPException 404 (''Document '' @ doc_id @ '' not found''))), s)
      | None \<Rightarrow>
          (case ask_question e s question vectordb k document_ids of
             (Inl ex, s') \<Rightarrow> (Inl (reraise e ''Error answering question: '' ex), s')
           | (Inr (answer, docs), s') \<Rightarrow>
               (case build_citations e [] docs of
                  Inl ex \<Rightarrow> (Inl (reraise e ''Error answering question: '' ex), s')
                | Inr citations \<Rightarrow>
                    (Inr (AskResponse question answer citations),
                     s'\<lparr>total_questions := total_questions s' + 1\<rparr>))))"

fun citation_document_id :: "Citation \<Rightarrow> string" where
  "citation_document_id (Citation i p c) = i"


section \<open>Field extraction\<close>

definition extract_contract_fields :: "env \<Rightarrow> state \<Rightarrow> string \<Rightarrow> (exn + ContractFields) \<times> state" where
  "extract_contract_fields e s full_text =
     (case call_llm e s (EXTRACT_SYSTEM, ''Contract text:'' @ nl @ nl @ take 8000 full_text) of
        (Inl ex, s') \<Rightarrow> (Inl ex, s')
      | (Inr resp, s') \<Rightarrow>
          (case json_loads e resp of
             None \<Rightarrow> (Inr ContractFields_default, s')
               \<comment> \<open>\<^verbatim>\<open>except json.JSONDecodeError\<close>\<close>
           | Some (JDict fields_dict) \<Rightarrow>
               (case ContractFields_validate e fields_dict of
                  None \<Rightarrow> (Inl (Exception ''ValidationError''), s')
                | Some cf \<Rightarrow> (Inr cf, s'))
           | Some _ \<Rightarrow> (Inl (Exception ''TypeError''), s')))"
               \<comment> \<open>\<^verbatim>\<open>**fields_dict\<close> on a value that is not a mapping\<close>

text \<open>\<^verbatim>\<open>fields.dict()\<close> and \<^verbatim>\<open>f.dict()\<close>\<close>

definition opt_str :: "string option \<Rightarrow> json" where
  "opt_str x = (case x of None \<Rightarrow> JNull | Some v \<Rightarrow> JStr v)"

definition Signatory_dict :: "Signatory \<Rightarrow> json" where
  "Signatory_dict sg = JDict [(''name'', JStr (name sg)), (''title'', opt_str (title sg))]"

definition LiabilityCap_dict :: "LiabilityCap \<Rightarrow> json" where
  "LiabilityCap_dict lc =
     JDict [(''amount'', (case amount lc of None \<Rightarrow> JNull | Some a \<Rightarrow> JFloat a)),
            (''currency'', opt_str (currency lc))]"

definition ContractFields_dict :: "ContractFields \<Rightarrow> json" where
  "ContractFields_dict f =
     JDict [(''parties'', JList (map JStr (parties f))),
            (''effective_date'', opt_str (effective_date f)),
            (''term'', opt_str (contract_term f)),
            (''governing_law'', opt_str (governing_law f)),
            (''payment_terms'', opt_str (payment_terms f)),
            (''termination'', opt_str (termination_clause f)),
            (''auto_renewal'', opt_str (auto_renewal f)),
            (''confidentiality'', opt_str (confidentiality f)),
            (''indemnity'', opt_str (indemnity f)),
            (''liability_cap'', (case liability_cap f of None \<Rightarrow> JNull | Some lc \<Rightarrow> LiabilityCap_dict lc)),
            (''signatories'', JList (map Signatory_dict (signatories f)))]"

definition RiskFinding_dict :: "RiskFinding \<Rightarrow> json" where
  "RiskFinding_dict f =
     JDict [(''risk_type'', JStr (risk_type f)),
            (''severity'', JStr (severity f)),
            (''description'', JStr (description f)),
            (''evidence'', JStr (evidence f)),
            (''recommendation'', opt_str (recommendation f))]"

text \<open>
  \<^verbatim>\<open>not file_path or not Path(file_path).exists()\<close>: \<^verbatim>\<open>Path\<close> raises a
  \<^verbatim>\<open>TypeError\<close> on a value that is not a string.
\<close>

definition pdf_missing :: "env \<Rightarrow> state \<Rightarrow> json \<Rightarrow> exn + bool" where
  "pdf_missing e s file_path =
     (if \<not> truthy file_path then Inr True
      else (case file_path of
              JStr p \<Rightarrow> Inr (\<not> path_exists e s p)
            | _ \<Rightarrow> Inl (Exception ''TypeError'')))"

definition path_of :: "json \<Rightarrow> string" where
  "path_of file_path = (case file_path of JStr p \<Rightarrow> p | _ \<Rightarrow> [])"

definition extract_fields :: "env \<Rightarrow> state \<Rightarrow> string \<Rightarrow> (exn + ExtractResponse) \<times> state" where
  "extract_fields e s document_id =
     (case load_document_metadata e s document_id of
        Inl ex \<Rightarrow> (Inl (reraise e ''Error extracting fields: '' ex), s)
      | Inr (JDict md) \<Rightarrow>
          (let file_path = get md ''file_path'' in
           case pdf_missing e s file_path of
             Inl ex \<Rightarrow> (Inl (reraise e ''Error extracting fields: '' ex), s)
           | Inr True \<Rightarrow>
               (Inl (reraise e ''Error extracting fields: ''
                       (HTTPException 404 (''PDF file for document '' @ document_id @ '' not found''))), s)
           | Inr False \<Rightarrow>
               (case load_pdf e s (path_of file_path) of
                  Inl ex \<Rightarrow> (Inl (reraise e ''Error extracting fields: '' ex), s)
                | Inr docs \<Rightarrow>
                    (let full_text = join nl (map page_content docs) in
                     case extract_contract_fields e s full_text of
                       (Inl ex, s1) \<Rightarrow> (Inl (reraise e ''Error extracting fields: '' ex), s1)
                     | (Inr cf, s1) \<Rightarrow>
                         (let md1 = AList.update ''extracted_fields'' (ContractFields_dict cf) md;
                              md2 = AList.update ''extraction_date''
                                      (JStr (now_isoformat e (clock_calls s1))) md1;
                              s2 = s1\<lparr>clock_calls := Suc (clock_calls s1)\<rparr>;
                              s3 = save_document_metadata e document_id md2 s2
                          in (Inr (ExtractResponse document_id cf),
                              s3\<lparr>total_extractions := total_extractions s3 + 1\<rparr>)))))
      | Inr _ \<Rightarrow> (Inl (reraise e ''Error extracting fields: '' (Exception ''AttributeError'')), s))"
          \<comment> \<open>\<^verbatim>\<open>metadata.get\<close> on a value that is not a dictionary\<close>

section \<open>Risk audit\<close>

text \<open>\<^verbatim>\<open>for finding in findings_list\<close>: what Python iterates over, \<open>None\<close> for a \<^verbatim>\<open>TypeError\<close>.\<close>

fun py_iter :: "json \<Rightarrow> json list option" where
  "py_iter (JList xs) = Some xs"
| "py_iter (JDict kvs) = Some (map (\<lambda>kv. JStr (fst kv)) kvs)"
| "py_iter (JStr x) = Some (map (\<lambda>c. JStr [c]) x)"
| "py_iter _ = None"

text \<open>
  \<^verbatim>\<open>[RiskFinding(**finding) for finding in findings_list]\<close>: \<open>None\<close> when one of
  the constructions raises.
\<close>

fun risk_findings :: "env \<Rightarrow> json list \<Rightarrow> RiskFinding list option" where
  "risk_findings e [] = Some []"
| "risk_findings e (finding # rest) =
     (case finding of
        JDict d \<Rightarrow>
          (case RiskFinding_validate e d of
             None \<Rightarrow> None
           | Some f \<Rightarrow> map_option ((#) f) (risk_findings e rest))
      | _ \<Rightarrow> None)"

definition audit_contract_risks :: "env \<Rightarrow> state \<Rightarrow> string \<Rightarrow> (exn + RiskFinding list) \<times> state" where
  "audit_contract_risks e s full_text =
     (case call_llm e s (AUDIT_SYSTEM, ''Analyze this contract for risks:'' @ nl @ nl @ take 10000 full_text) of
        (Inl ex, s') \<Rightarrow> (Inl ex, s')
      | (Inr resp, s') \<Rightarrow>
          (case json_loads e resp of
             None \<Rightarrow> (Inr [], s')
           | Some findings_list \<Rightarrow>
               (case py_iter findings_list of
                  None \<Rightarrow> (Inr [], s')
                | Some xs \<Rightarrow>
                    (case risk_findings e xs of
                       None \<Rightarrow> (Inr [], s')
                     | Some findings \<Rightarrow> (Inr findings, s')))))"

definition audit_contract :: "env \<Rightarrow> state \<Rightarrow> string \<Rightarrow> (exn + AuditResponse) \<times> state" where
  "audit_contract e s document_id =
     (case load_document_metadata e s document_id of
        Inl ex \<Rightarrow> (Inl (reraise e ''Error auditing contract: '' ex), s)
      | Inr (JDict md) \<Rightarrow>
          (let file_path = get md ''file_path'' in
           case pdf_missing e s file_path of
             Inl ex \<Rightarrow> (Inl (reraise e ''Error auditing contract: '' ex), s)
           | Inr True \<Rightarrow>
               (Inl (reraise e ''Error auditing contract: ''
                       (HTTPException 404 (''PDF file for document '' @ document_id @ '' not found''))), s)
           | Inr False \<Rightarrow>
               (case load_pdf e s (path_of file_path) of
                  Inl ex \<Rightarrow> (Inl (reraise e ''Error auditing contract: '' ex), s)
                | Inr docs \<Rightarrow>
                    (let full_text = join nl (map page_content docs) in
                     case audit_contract_risks e s full_text of
                       (Inl ex, s1) \<Rightarrow> (Inl (reraise e ''Error auditing contract: '' ex), s1)
                     | (Inr findings, s1) \<Rightarrow>
                         (let audit_date = now_isoformat e (clock_calls s1);
                              audit_results =
                                JDict [(''audit_date'', JStr audit_date),
                                       (''total_risks'', JInt (int (length findings))),
                                       (''findings'', JList (map RiskFinding_dict findings))];
                              md1 = AList.update ''audit_results'' audit_results md;
                              s2 = s1\<lparr>clock_calls := Suc (clock_calls s1)\<rparr>;
                              s3 = save_document_metadata e document_id md1 s2
                          in (Inr (AuditResponse document_id (length findings) findings audit_date),
                              s3\<lparr>total_audits := total_audits s3 + 1\<rparr>)))))
      | Inr _ \<Rightarrow> (Inl (reraise e ''Error auditing contract: '' (Exception ''AttributeError'')), s))"
          \<comment> \<open>\<^verbatim>\<open>metadata.get\<close> on a value that is not a dictionary\<close>


section \<open>Ingestion\<close>

text \<open>
  The body of the loop of \<^verbatim>\<open>ingest_contracts\<close> for one file: the identifier it generates
  and \<^verbatim>\<open>len(chunks)\<close>, or the exception that leaves the loop. The path is the one
  \<^verbatim>\<open>str(Path(UPLOAD_DIR) / f"{document_id}_{file.filename}")\<close> gives for a plain file name.
\<close>

definition upload_path :: "string \<Rightarrow> string \<Rightarrow> string" where
  "upload_path document_id fname = UPLOAD_DIR @ ''/'' @ document_id @ ''_'' @ fname"

definition ingest_file :: "env \<Rightarrow> state \<Rightarrow> UploadFile \<Rightarrow> (exn + string \<times> nat) \<times> state" where
  "ingest_file e s file =
     (if \<not> endswith (filename file) ''.pdf''
      then (Inl (HTTPException 400 (''File '' @ filename file @ '' is not a PDF'')), s)
      else
        (let document_id = uuid4 e (uuid_calls s);
             s1 = s\<lparr>uuid_calls := Suc (uuid_calls s)\<rparr>;
             file_path = upload_path document_id (filename file)
         in if \<not> open_wb e file_path then (Inl (Exception ''OSError''), s1)
            else
              (let s2 = s1\<lparr>disk := (disk s1)(realpath e file_path \<mapsto> Bytes (content file))\<rparr> in
               case load_pdf e s2 file_path of
                 Inl ex \<Rightarrow> (Inl ex, s2)
               | Inr docs \<Rightarrow>
                   (let chunks = chunk_documents e docs in
                    case create_vector_db e s2 chunks document_id of
                      (Inl ex, s3) \<Rightarrow> (Inl ex, s3)
                    | (Inr vectordb, s3) \<Rightarrow>
                        (let full_text = join nl (map page_content docs);
                             md = [(''document_id'', JStr document_id),
                                   (''filename'', JStr (filename file)),
                                   (''upload_date'', JStr (now_isoformat e (clock_calls s3))),
                                   (''num_pages'', JInt (int (length docs))),
                                   (''num_chunks'', JInt (int (length chunks))),
                                   (''file_path'', JStr file_path),
                                   (''full_text_preview'', JStr (take 500 full_text))];
                             s4 = s3\<lparr>clock_calls := Suc (clock_calls s3)\<rparr>;
                             s5 = save_document_metadata e document_id md s4;
                             s6 = s5\<lparr>document_registry := (document_registry s5)(document_id \<mapsto> md)\<rparr>
                         in (Inr (document_id, length chunks), s6))))))"

text \<open>The loop, with \<^verbatim>\<open>document_ids\<close> and \<^verbatim>\<open>total_chunks\<close> as accumulators.\<close>

fun ingest_loop ::
  "env \<Rightarrow> UploadFile list \<Rightarrow> string list \<Rightarrow> nat \<Rightarrow> state \<Rightarrow> (exn + string list \<times> nat) \<times> state" where
  "ingest_loop e [] document_ids total_chunks s = (Inr (document_ids, total_chunks), s)"
| "ingest_loop e (file # files) document_ids total_chunks s =
     (case ingest_file e s file of
        (Inl ex, s') \<Rightarrow> (Inl ex, s')
      | (Inr (document_id, n), s') \<Rightarrow>
          ingest_loop e files (document_ids @ [document_id]) (total_chunks + n) s')"

text \<open>
  The endpoint. Its \<^verbatim>\<open>try\<close> has the single clause \<^verbatim>\<open>except Exception\<close>, which
  also catches the \<^verbatim>\<open>HTTPException\<close> raised in the loop.
\<close>

definition ingest_contracts :: "env \<Rightarrow> state \<Rightarrow> UploadFile list \<Rightarrow> (exn + IngestResponse) \<times> state" where
  "ingest_contracts e s files =
     (if files = [] then (Inl (HTTPException 400 ''No files provided''), s)
      else
        (case ingest_loop e files [] 0 s of
           (Inl ex, s') \<Rightarrow>
             (Inl (HTTPException 500 (''Error during ingestion: '' @ exn_str e ex)), s')
         | (Inr (document_ids, total_chunks), s') \<Rightarrow>
             (Inr (IngestResponse document_ids
                     (''Successfully ingested '' @ str_nat (length files) @ '' document(s)'')
                     total_chunks),
              s'\<lparr>total_ingestions := total_ingestions s' + length files\<rparr>)))"

text \<open>
  The number of windows that chunking a file produces, when the file is stored under the
  identifier \<open>document_id\<close>: the chunks of the pages the parser gives for the stored bytes.
\<close>

definition window_count :: "env \<Rightarrow> string \<Rightarrow> UploadFile \<Rightarrow> nat" where
  "window_count e document_id file =
     (case PyPDFLoader e (upload_path document_id (filename file)) (Bytes (content file)) of
        None \<Rightarrow> 0
      | Some docs \<Rightarrow> length (chunk_documents e docs))"

section \<open>Metrics\<close>

text \<open>
  \<^verbatim>\<open>Path(METADATA_DIR).glob("*.json")\<close> lists the files that lie in the directory itself
  and whose name ends in \<^verbatim>\<open>.json\<close>.
\<close>

definition listed :: "env \<Rightarrow> string \<Rightarrow> bool" where
  "listed e p =
     (let d = realpath e METADATA_DIR @ ''/''; fname = drop (length d) p
      in take (length d) p = d \<and> CHR ''/'' \<notin> set fname \<and> endswith fname ''.json'')"

definition metadata_files :: "env \<Rightarrow> state \<Rightarrow> string set" where
  "metadata_files e s = {p \<in> dom (disk s). listed e p}"

definition get_metrics :: "env \<Rightarrow> state \<Rightarrow> MetricsResponse" where
  "get_metrics e s =
     MetricsResponse (card (metadata_files e s)) (total_ingestions s) (total_extractions s)
       (total_questions s) (total_audits s)"

fun total_documents :: "MetricsResponse \<Rightarrow> nat" where
  "total_documents (MetricsResponse d i x q a) = d"

text \<open>
  What the file system and the UUID generator are expected to give an ingestion of \<open>files\<close>
  from the state \<open>s\<close>: the identifiers it will generate name metadata files that lie in the
  metadata directory, are not there yet and differ from one another, and the uploads are
  stored outside the metadata directory.
\<close>

definition fresh_files :: "env \<Rightarrow> state \<Rightarrow> UploadFile list \<Rightarrow> bool" where
  "fresh_files e s files =
     (inj_on (\<lambda>i. realpath e (metadata_path (uuid4 e i)))
        {uuid_calls s ..< uuid_calls s + length files} \<and>
      (\<forall>i < length files.
         listed e (realpath e (metadata_path (uuid4 e (uuid_calls s + i)))) \<and>
         realpath e (metadata_path (uuid4 e (uuid_calls s + i))) \<notin> dom (disk s) \<and>
         \<not> listed e (realpath e (upload_path (uuid4 e (uuid_calls s + i)) (filename (files ! i))))))"

section \<open>Sequences of requests\<close>

datatype request = Ingest "UploadFile list" | Extract string | Audit string

fun serve :: "env \<Rightarrow> state \<Rightarrow> request \<Rightarrow> state" where
  "serve e s (Ingest files) = snd (ingest_contracts e s files)"
| "serve e s (Extract document_id) = snd (extract_fields e s document_id)"
| "serve e s (Audit document_id) = snd (audit_contract e s document_id)"

definition serve_all :: "env \<Rightarrow> state \<Rightarrow> request list \<Rightarrow> state" where
  "serve_all e s reqs = foldl (serve e) s reqs"

section \<open>Stubbed services\<close>

text \<open>
  A stub of the external services for concrete runs: identifiers \<open>u\<close>, \<open>uu\<close>, ..., paths
  that name files as they are written, a parser that gives one page holding the bytes, a splitter that keeps the pages, a search
  that returns the first stored chunks, and a chat model with one fixed answer.
\<close>

definition stub :: "string \<Rightarrow> env" where
  "stub answer =
     \<lparr>uuid4 = (\<lambda>n. replicate (Suc n) (CHR ''u'')),
      now_isoformat = (\<lambda>n. ''2024-01-01T00:00:0'' @ str_nat n),
      open_wb = (\<lambda>p. True),
      realpath = (\<lambda>p. p),
      isdir = (\<lambda>p. False),
      PyPDFLoader = (\<lambda>p f. case f of
                       Bytes b \<Rightarrow> Some [\<lparr>page_content = b, metadata = [(''source'', JStr p), (''page'', JInt 0)]\<rparr>]
                     | Json j \<Rightarrow> None),
      split_documents = (\<lambda>docs. docs),
      from_documents = (\<lambda>chunks. True),
      similarity_search = (\<lambda>store query k. Some (take k store)),
      llm = (\<lambda>msgs. Some answer),
      json_loads = (\<lambda>x. if x = ''[]'' then Some (JList [])
                        else if x = ''{}'' then Some (JDict [])
                        else if x = ''0'' then Some (JInt 0)
                        else None),
      ContractFields_validate = (\<lambda>d. if d = [] then Some ContractFields_default else None),
      RiskFinding_validate = (\<lambda>d. None),
      coerce_str = (\<lambda>v. None),
      coerce_optional_int = (\<lambda>v. None),
      exn_str = (\<lambda>ex. case ex of HTTPException c d \<Rightarrow> str_nat c @ '': '' @ d
                                  | JSONDecodeError \<Rightarrow> ''JSONDecodeError''
                                  | Exception c \<Rightarrow> c)\<rparr>"

definition empty_state :: state where
  "empty_state =
     \<lparr>disk = Map.empty, chroma = [], document_registry = Map.empty,
      total_ingestions = 0, total_extractions = 0, total_questions = 0, total_audits = 0,
      total_streams = 0, llm_log = [], uuid_calls = 0, clock_calls = 0\<rparr>"

definition pdf_a :: UploadFile where
  "pdf_a = \<lparr>filename = ''a.pdf'', content = ''Alpha agreement''\<rparr>"

definition pdf_b :: UploadFile where
  "pdf_b = \<lparr>filename = ''b.pdf'', content = ''Beta agreement''\<rparr>"

definition notes_txt :: UploadFile where
  "notes_txt = \<lparr>filename = ''notes.txt'', content = ''plain text''\<rparr>"


text \<open>The state after the two PDFs are ingested with the stub, written out.\<close>

definition md_a :: dict where
  "md_a = [(''document_id'', JStr ''u''), (''filename'', JStr ''a.pdf''),
           (''upload_date'', JStr ''2024-01-01T00:00:00''),
           (''num_pages'', JInt 1), (''num_chunks'', JInt 1),
           (''file_path'', JStr ''uploaded_contracts/u_a.pdf''),
           (''full_text_preview'', JStr ''Alpha agreement'')]"

definition md_b :: dict where
  "md_b = [(''document_id'', JStr ''uu''), (''filename'', JStr ''b.pdf''),
           (''upload_date'', JStr ''2024-01-01T00:00:01''),
           (''num_pages'', JInt 1), (''num_chunks'', JInt 1),
           (''file_path'', JStr ''uploaded_contracts/uu_b.pdf''),
           (''full_text_preview'', JStr ''Beta agreement'')]"

definition chunk_a :: document where
  "chunk_a = \<lparr>page_content = ''Alpha agreement'',
              metadata = [(''source'', JStr ''uploaded_contracts/u_a.pdf''),
                          (''page'', JInt 0), (''document_id'', JStr ''u'')]\<rparr>"

definition chunk_b :: document where
  "chunk_b = \<lparr>page_content = ''Beta agreement'',
              metadata = [(''source'', JStr ''uploaded_contracts/uu_b.pdf''),
                          (''page'', JInt 0), (''document_id'', JStr ''uu'')]\<rparr>"

definition library :: state where
  "library =
     \<lparr>disk = [''uploaded_contracts/u_a.pdf'' \<mapsto> Bytes ''Alpha agreement'',
              ''contract_metadata/u.json'' \<mapsto> Json (JDict md_a),
              ''uploaded_contracts/uu_b.pdf'' \<mapsto> Bytes ''Beta agreement'',
              ''contract_metadata/uu.json'' \<mapsto> Json (JDict md_b)],
      chroma = [chunk_a, chunk_b],
      document_registry = [''u'' \<mapsto> md_a, ''uu'' \<mapsto> md_b],
      total_ingestions = 2, total_extractions = 0, total_questions = 0, total_audits = 0,
      total_streams = 0, llm_log = [], uuid_calls = 2, clock_calls = 2\<rparr>"

text \<open>
  An index that is sparse in chunks of the document \<open>u\<close>: one at the head, nine chunks of
  \<open>uu\<close>, and a second chunk of \<open>u\<close> in the eleventh place.
\<close>

definition sparse_index :: "document list" where
  "sparse_index = [chunk_a, chunk_b, chunk_b, chunk_b, chunk_b, chunk_b, chunk_b, chunk_b,
                   chunk_b, chunk_b, chunk_a]"



section \<open>Properties of the retrieval loop and of the citations\<close>

lemma filter_loop_eq:
  "1 \<le> k \<Longrightarrow> length docs < k \<Longrightarrow>
   filter_loop k ids docs all_docs = take k (docs @ filter (\<lambda>d. in_allow_list d ids) all_docs)"
proof (induction all_docs arbitrary: docs)
  case Nil
  then show ?case by simp
next
  case (Cons d ds)
  show ?case
  proof (cases "in_allow_list d ids")
    case False
    with Cons show ?thesis by simp
  next
    case True
    show ?thesis
    proof (cases "k \<le> Suc (length docs)")
      case True
      with Cons.prems have "k = Suc (length docs)" by simp
      with \<open>in_allow_list d ids\<close> show ?thesis by simp
    next
      case False
      then have "length (docs @ [d]) < k" by simp
      from Cons.IH [OF Cons.prems(1) this] \<open>in_allow_list d ids\<close> False
      show ?thesis by simp
    qed
  qed
qed

lemma make_Citation_id:
  "in_allow_list doc ids \<Longrightarrow> make_Citation e doc = Inr c \<Longrightarrow> citation_document_id c \<in> set ids"
  by (auto simp: in_allow_list_def make_Citation_def get_def get_default_def pydantic_str_def
           split: option.splits json.splits)

lemma build_citations_ids:
  "\<forall>d \<in> set docs. in_allow_list d ids \<Longrightarrow> \<forall>c \<in> set acc. citation_document_id c \<in> set ids \<Longrightarrow>
   build_citations e acc docs = Inr cs \<Longrightarrow> \<forall>c \<in> set cs. citation_document_id c \<in> set ids"
proof (induction docs arbitrary: acc)
  case Nil
  then show ?case by simp
next
  case (Cons d ds)
  from Cons.prems(3) obtain c where c: "make_Citation e d = Inr c"
    and rest: "build_citations e (acc @ [c]) ds = Inr cs"
    by (auto split: sum.splits)
  from Cons.prems(1) c have "citation_document_id c \<in> set ids"
    using make_Citation_id by auto
  with Cons.prems(2) have "\<forall>x \<in> set (acc @ [c]). citation_document_id x \<in> set ids" by auto
  from Cons.IH [OF _ this rest] Cons.prems(1) show ?case by simp
qed

lemma build_citations_length:
  "build_citations e acc docs = Inr cs \<Longrightarrow> length cs = length acc + length docs"
  by (induction docs arbitrary: acc) (auto split: sum.splits)

lemma retrieve_allow_list:
  "ids \<noteq> [] \<Longrightarrow> 1 \<le> k \<Longrightarrow> similarity_search e vectordb query (k * 5) = Some all_docs \<Longrightarrow>
   retrieve e vectordb query k (Some ids) = Inr (take k (filter (\<lambda>d. in_allow_list d ids) all_docs))"
  by (cases ids) (simp_all add: retrieve_def filter_loop_eq)



lemma filter_loop_allowed:
  "\<forall>d \<in> set docs. in_allow_list d ids \<Longrightarrow>
   \<forall>d \<in> set (filter_loop k ids docs all_docs). in_allow_list d ids"
proof (induction all_docs arbitrary: docs)
  case Nil
  then show ?case by simp
next
  case (Cons a all_docs)
  show ?case
    using Cons.IH [of "docs @ [a]"] Cons.IH [of docs] Cons.prems by auto
qed

section \<open>Concrete runs with the stub\<close>

lemma str_nat_small:
  "str_nat 0 = ''0''" "str_nat (Suc 0) = ''1''" "str_nat (Suc (Suc 0)) = ''2''"
  "str_nat 1 = ''1''" "str_nat 2 = ''2''" "str_nat 3 = ''3''"
  by (simp_all add: str_nat.simps)

lemma endswith_pdf:
  "endswith ''a.pdf'' ''.pdf''" "endswith ''b.pdf'' ''.pdf''" "\<not> endswith ''notes.txt'' ''.pdf''"
  by (simp_all add: endswith_def)

lemma ingest_two:
  "ingest_contracts (stub a) empty_state [pdf_a, pdf_b] =
     (Inr (IngestResponse [''u'', ''uu''] ''Successfully ingested 2 document(s)'' 2), library)"
  by (simp add: ingest_contracts_def ingest_file_def create_vector_db_def load_pdf_def
      chunk_documents_def tag_chunk_def save_document_metadata_def upload_path_def UPLOAD_DIR_def
      metadata_path_def METADATA_DIR_def
      stub_def empty_state_def pdf_a_def pdf_b_def endswith_pdf str_nat_small nl_def Let_def
      library_def md_a_def md_b_def chunk_a_def chunk_b_def numeral_2_eq_2)

lemma ask_library_u:
  "ask_question_api (stub ''ans'') library ''q'' (Some [''u'']) 3 =
     (Inr (AskResponse ''q'' ''ans'' [Citation ''u'' (Some 0) ''Alpha agreement'']),
      library\<lparr>llm_log := [(QA_SYSTEM, ''Context:'' @ nl @ ''Alpha agreement'' @ nl @ nl @ ''Question: q'')],
              total_questions := 1\<rparr>)"
  by (simp add: ask_question_api_def ask_question_def retrieve_def first_unknown_def
      path_exists_def metadata_path_def METADATA_DIR_def
      load_vector_db_def call_llm_def make_Citation_def pydantic_str_def pydantic_optional_int_def
      get_def get_default_def in_allow_list_def stub_def library_def chunk_a_def chunk_b_def
      nl_def Let_def)

section \<open>Properties of the endpoints\<close>

lemma ask_allow_list_docs:
  assumes "ids \<noteq> []" and "1 \<le> k"
    and "similarity_search e (load_vector_db s) question (5 * k) = Some all_docs"
    and "ask_question_api e s question (Some ids) k = (Inr (AskResponse q a cs), s')"
  shows "build_citations e [] (take k (filter (\<lambda>d. in_allow_list d ids) all_docs)) = Inr cs"
proof -
  let ?kept = "take k (filter (\<lambda>d. in_allow_list d ids) all_docs)"
  have r: "retrieve e (load_vector_db s) question k (Some ids) = Inr ?kept"
    using assms(1-3) by (simp add: retrieve_allow_list mult.commute)
  from assms(4) obtain docs s1 where
    ask: "ask_question e s question (load_vector_db s) k (Some ids) = (Inr (a, docs), s1)"
    and cit: "build_citations e [] docs = Inr cs"
    by (auto simp: ask_question_api_def Let_def reraise_def
        split: option.splits sum.splits prod.splits exn.splits)
  from ask r have "docs = ?kept"
    by (auto simp: ask_question_def Let_def split: if_splits prod.splits sum.splits)
  with cit show ?thesis by simp
qed

lemma extract_contract_fields_disk:
  "extract_contract_fields e s t = (r, s') \<Longrightarrow> disk s' = disk s"
  by (auto simp: extract_contract_fields_def call_llm_def split: option.splits json.splits)

lemma audit_contract_risks_disk:
  "audit_contract_risks e s t = (r, s') \<Longrightarrow> disk s' = disk s"
  by (auto simp: audit_contract_risks_def call_llm_def split: option.splits)

lemma map_of_update_other: "k \<noteq> k' \<Longrightarrow> map_of (AList.update k' v al) k = map_of al k"
  by (simp add: update_conv')



lemma extract_fields_success:
  assumes "extract_fields e s document_id = (Inr r, s')"
  shows "\<exists>md cf t. load_document_metadata e s document_id = Inr (JDict md) \<and>
           disk s' = (disk s)(realpath e (metadata_path document_id) \<mapsto>
              Json (JDict (AList.update ''extraction_date'' (JStr t)
                             (AList.update ''extracted_fields'' (ContractFields_dict cf) md))))"
  using assms
  by (auto simp: extract_fields_def Let_def save_document_metadata_def
      split: sum.splits json.splits bool.splits prod.splits
      dest!: extract_contract_fields_disk) blast+

lemma audit_contract_success:
  assumes "audit_contract e s document_id = (Inr r, s')"
  shows "\<exists>md v. load_document_metadata e s document_id = Inr (JDict md) \<and>
           disk s' = (disk s)(realpath e (metadata_path document_id) \<mapsto>
              Json (JDict (AList.update ''audit_results'' v md)))"
  using assms
  by (auto simp: audit_contract_def Let_def save_document_metadata_def
      split: sum.splits json.splits bool.splits prod.splits
      dest!: audit_contract_risks_disk)

lemma ingest_file_result:
  assumes "ingest_file e s f = (Inr (i, n), s')"
  shows "i = uuid4 e (uuid_calls s) \<and> n = window_count e i f \<and> uuid_calls s' = Suc (uuid_calls s)"
  using assms
  by (auto simp: ingest_file_def Let_def load_pdf_def create_vector_db_def window_count_def
      save_document_metadata_def
      split: if_splits option.splits sum.splits prod.splits)

lemma ingest_loop_result:
  "ingest_loop e files acc tot s = (Inr (ids, tc), s') \<Longrightarrow>
   ids = acc @ map (uuid4 e) [uuid_calls s ..< uuid_calls s + length files] \<and>
   tc = tot + sum_list (map2 (window_count e)
                   (map (uuid4 e) [uuid_calls s ..< uuid_calls s + length files]) files)"
proof (induction files arbitrary: acc tot s)
  case Nil
  then show ?case by simp
next
  case (Cons f files)
  from Cons.prems obtain i n s1 where
    one: "ingest_file e s f = (Inr (i, n), s1)"
    and rest: "ingest_loop e files (acc @ [i]) (tot + n) s1 = (Inr (ids, tc), s')"
    by (auto split: prod.splits sum.splits)
  from ingest_file_result [OF one] have i: "i = uuid4 e (uuid_calls s)"
    and n: "n = window_count e i f" and u: "uuid_calls s1 = Suc (uuid_calls s)"
    by simp_all
  have upt: "[uuid_calls s ..< uuid_calls s + length (f # files)] =
             uuid_calls s # [Suc (uuid_calls s) ..< Suc (uuid_calls s) + length files]"
    using upt_conv_Cons [of "uuid_calls s" "uuid_calls s + Suc (length files)"] by simp
  note IH = Cons.IH [OF rest, unfolded u]
  show ?case
    unfolding upt using IH i n by (simp del: upt_Suc)
qed

lemma load_document_metadata_dom:
  "load_document_metadata e s i = Inr j \<Longrightarrow> realpath e (metadata_path i) \<in> dom (disk s)"
  by (auto simp: load_document_metadata_def split: if_splits option.splits)

lemma extract_fields_dom: "dom (disk (snd (extract_fields e s i))) = dom (disk s)"
  by (auto simp: extract_fields_def Let_def save_document_metadata_def
      split: sum.splits json.splits bool.splits prod.splits
      dest!: extract_contract_fields_disk load_document_metadata_dom)

lemma audit_contract_dom: "dom (disk (snd (audit_contract e s i))) = dom (disk s)"
  by (auto simp: audit_contract_def Let_def save_document_metadata_def
      split: sum.splits json.splits bool.splits prod.splits
      dest!: audit_contract_risks_disk load_document_metadata_dom)

lemma ingest_file_disk:
  assumes "ingest_file e s f = (Inr r, s')"
  shows "dom (disk s') =
           insert (realpath e (metadata_path (uuid4 e (uuid_calls s))))
             (insert (realpath e (upload_path (uuid4 e (uuid_calls s)) (filename f))) (dom (disk s)))"
  using assms
  by (auto simp: ingest_file_def Let_def load_pdf_def create_vector_db_def
      save_document_metadata_def
      split: if_splits option.splits sum.splits prod.splits)

lemma ingest_file_adds_one:
  assumes "ingest_file e s f = (Inr r, s')"
    and "finite (dom (disk s))"
    and "listed e (realpath e (metadata_path (uuid4 e (uuid_calls s))))"
    and "realpath e (metadata_path (uuid4 e (uuid_calls s))) \<notin> dom (disk s)"
    and "\<not> listed e (realpath e (upload_path (uuid4 e (uuid_calls s)) (filename f)))"
  shows "card (metadata_files e s') = card (metadata_files e s) + 1"
proof -
  let ?M = "realpath e (metadata_path (uuid4 e (uuid_calls s)))"
  from ingest_file_disk [OF assms(1)] assms(3,5)
  have "metadata_files e s' = insert ?M (metadata_files e s)"
    by (auto simp: metadata_files_def)
  moreover from assms(2) have "finite (metadata_files e s)"
    by (simp add: metadata_files_def)
  moreover from assms(4) have "?M \<notin> metadata_files e s"
    by (simp add: metadata_files_def)
  ultimately show ?thesis by simp
qed

lemma fresh_files_Cons:
  assumes "fresh_files e s (f # files)" and "ingest_file e s f = (Inr r, s1)"
  shows "fresh_files e s1 files"
proof -
  let ?n = "uuid_calls s"
  let ?M = "\<lambda>i. realpath e (metadata_path (uuid4 e i))"
  let ?U = "realpath e (upload_path (uuid4 e ?n) (filename f))"
  obtain i k where r: "r = (i, k)" by (cases r)
  from ingest_file_result [OF assms(2) [unfolded r]] have u: "uuid_calls s1 = Suc ?n" by simp
  from assms(1) have inj: "inj_on ?M {?n ..< ?n + Suc (length files)}"
    and all: "\<forall>i < Suc (length files). listed e (?M (?n + i)) \<and> ?M (?n + i) \<notin> dom (disk s) \<and>
                \<not> listed e (realpath e (upload_path (uuid4 e (?n + i)) (filename ((f # files) ! i))))"
    by (simp_all add: fresh_files_def)
  from all have zero: "listed e (?M ?n)" "\<not> listed e ?U"
    by (auto dest: spec [of _ 0])
  have d: "dom (disk s1) = insert (?M ?n) (insert ?U (dom (disk s)))"
    using ingest_file_disk [OF assms(2)] by simp
  have "inj_on ?M {Suc ?n ..< Suc ?n + length files}"
    by (rule inj_on_subset [OF inj]) auto
  moreover have "\<forall>i < length files. listed e (?M (Suc ?n + i)) \<and> ?M (Suc ?n + i) \<notin> dom (disk s1) \<and>
                \<not> listed e (realpath e (upload_path (uuid4 e (Suc ?n + i)) (filename (files ! i))))"
  proof (intro allI impI)
    fix i assume i: "i < length files"
    with all have a: "listed e (?M (?n + Suc i))" "?M (?n + Suc i) \<notin> dom (disk s)"
      "\<not> listed e (realpath e (upload_path (uuid4 e (?n + Suc i)) (filename (files ! i))))"
      by (auto dest: spec [of _ "Suc i"])
    have "?M (?n + Suc i) \<noteq> ?M ?n"
    proof
      assume eq: "?M (?n + Suc i) = ?M ?n"
      from i have "?n + Suc i \<in> {?n ..< ?n + Suc (length files)}"
        and "?n \<in> {?n ..< ?n + Suc (length files)}" by simp_all
      from inj_onD [OF inj eq this] show False by simp
    qed
    moreover from a(1) zero(2) have "?M (?n + Suc i) \<noteq> ?U" by auto
    ultimately have "?M (?n + Suc i) \<notin> dom (disk s1)"
      using a(2) d by simp
    with a show "listed e (?M (Suc ?n + i)) \<and> ?M (Suc ?n + i) \<notin> dom (disk s1) \<and>
                \<not> listed e (realpath e (upload_path (uuid4 e (Suc ?n + i)) (filename (files ! i))))"
      by simp
  qed
  ultimately show ?thesis by (simp add: fresh_files_def u)
qed

lemma ingest_loop_adds:
  "ingest_loop e files acc tot s = (Inr res, s') \<Longrightarrow> finite (dom (disk s)) \<Longrightarrow>
   fresh_files e s files \<Longrightarrow>
   card (metadata_files e s') = card (metadata_files e s) + length files"
proof (induction files arbitrary: acc tot s)
  case Nil
  then show ?case by simp
next
  case (Cons f files)
  from Cons.prems(1) obtain i n s1 where
    one: "ingest_file e s f = (Inr (i, n), s1)"
    and rest: "ingest_loop e files (acc @ [i]) (tot + n) s1 = (Inr res, s')"
    by (auto split: prod.splits sum.splits)
  from Cons.prems(3) have first: "listed e (realpath e (metadata_path (uuid4 e (uuid_calls s))))"
    "realpath e (metadata_path (uuid4 e (uuid_calls s))) \<notin> dom (disk s)"
    "\<not> listed e (realpath e (upload_path (uuid4 e (uuid_calls s)) (filename f)))"
    by (auto simp: fresh_files_def dest: spec [of _ 0])
  from ingest_file_adds_one [OF one Cons.prems(2) first]
  have c1: "card (metadata_files e s1) = card (metadata_files e s) + 1" .
  from ingest_file_disk [OF one] Cons.prems(2) have fin: "finite (dom (disk s1))" by simp
  from Cons.IH [OF rest fin fresh_files_Cons [OF Cons.prems(3) one]] c1
  show ?case by simp
qed

lemma ingest_contracts_adds:
  assumes "ingest_contracts e s files = (Inr r, s')" and "finite (dom (disk s))"
    and "fresh_files e s files"
  shows "card (metadata_files e s') = card (metadata_files e s) + length files"
proof -
  from assms(1) obtain res s1 where loop: "ingest_loop e files [] 0 s = (Inr res, s1)"
    and s': "s' = s1\<lparr>total_ingestions := total_ingestions s1 + length files\<rparr>"
    by (auto simp: ingest_contracts_def split: if_splits prod.splits sum.splits)
  from ingest_loop_adds [OF loop assms(2,3)] s' show ?thesis
    by (simp add: metadata_files_def)
qed

lemma metadata_files_cong: "dom (disk s') = dom (disk s) \<Longrightarrow> metadata_files e s' = metadata_files e s"
  by (simp add: metadata_files_def)

section \<open>Further runs with the stub\<close>

lemma ask_sparse:
  "ask_question_api (stub ''ans'') (library\<lparr>chroma := sparse_index\<rparr>) ''q'' (Some [''u'']) 2 =
     (Inr (AskResponse ''q'' ''ans'' [Citation ''u'' (Some 0) ''Alpha agreement'']),
      library\<lparr>chroma := sparse_index,
              llm_log := [(QA_SYSTEM, ''Context:'' @ nl @ ''Alpha agreement'' @ nl @ nl @ ''Question: q'')],
              total_questions := 1\<rparr>)"
  by (simp add: ask_question_api_def ask_question_def retrieve_def first_unknown_def
      path_exists_def metadata_path_def METADATA_DIR_def
      load_vector_db_def call_llm_def make_Citation_def pydantic_str_def pydantic_optional_int_def
      get_def get_default_def in_allow_list_def stub_def library_def chunk_a_def chunk_b_def
      sparse_index_def nl_def Let_def)

lemma library_lookup:
  "load_document_metadata (stub answer) library ''u'' = Inr (JDict md_a)"
  "get md_a ''file_path'' = JStr ''uploaded_contracts/u_a.pdf''"
  "pdf_missing (stub answer) library (JStr ''uploaded_contracts/u_a.pdf'') = Inr False"
  "load_pdf (stub answer) library ''uploaded_contracts/u_a.pdf'' =
     Inr [\<lparr>page_content = ''Alpha agreement'',
           metadata = [(''source'', JStr ''uploaded_contracts/u_a.pdf''), (''page'', JInt 0)]\<rparr>]"
  by (simp_all add: library_def md_a_def get_def get_default_def pdf_missing_def load_pdf_def
      load_document_metadata_def path_exists_def metadata_path_def METADATA_DIR_def stub_def)

lemma stub_fields:
  "llm (stub answer) msgs = Some answer"
  "json_loads (stub answer) ''[]'' = Some (JList [])"
  "json_loads (stub answer) ''{}'' = Some (JDict [])"
  "json_loads (stub answer) ''0'' = Some (JInt 0)"
  "json_loads (stub answer) ''nonsense'' = None"
  "ContractFields_validate (stub answer) [] = Some ContractFields_default"
  "now_isoformat (stub answer) 2 = ''2024-01-01T00:00:02''"
  "exn_str (stub answer) (Exception c) = c"
  "realpath (stub answer) p = p"
  "isdir (stub answer) p = False"
  by (simp_all add: stub_def str_nat_small)

lemma library_counters:
  "clock_calls library = 2" "total_extractions library = 0" "total_audits library = 0"
  "llm_log library = []"
  by (simp_all add: library_def)

lemma extract_array:
  "fst (extract_fields (stub ''[]'') library ''u'') =
     Inl (HTTPException 500 ''Error extracting fields: TypeError'')"
  by (simp add: extract_fields_def library_lookup path_of_def
      extract_contract_fields_def call_llm_def stub_fields reraise_def Let_def)

lemma extract_object:
  "extract_fields (stub ''{}'') library ''u'' =
     (Inr (ExtractResponse ''u'' ContractFields_default),
      library\<lparr>disk := (disk library)(''contract_metadata/u.json'' \<mapsto> Json (JDict
                 (AList.update ''extraction_date'' (JStr ''2024-01-01T00:00:02'')
                   (AList.update ''extracted_fields'' (ContractFields_dict ContractFields_default) md_a)))),
              total_extractions := 1,
              llm_log := [(EXTRACT_SYSTEM, ''Contract text:'' @ nl @ nl @ ''Alpha agreement'')],
              clock_calls := 3\<rparr>)"
  by (simp add: extract_fields_def library_lookup path_of_def
      extract_contract_fields_def call_llm_def stub_fields reraise_def Let_def
      save_document_metadata_def library_counters metadata_path_def METADATA_DIR_def)

lemma audit_object:
  "audit_contract (stub ''{}'') library ''u'' =
     (Inr (AuditResponse ''u'' 0 [] ''2024-01-01T00:00:02''),
      library\<lparr>disk := (disk library)(''contract_metadata/u.json'' \<mapsto> Json (JDict
                 (AList.update ''audit_results''
                   (JDict [(''audit_date'', JStr ''2024-01-01T00:00:02''),
                           (''total_risks'', JInt 0), (''findings'', JList [])]) md_a))),
              total_audits := 1,
              llm_log := [(AUDIT_SYSTEM, ''Analyze this contract for risks:'' @ nl @ nl @ ''Alpha agreement'')],
              clock_calls := 3\<rparr>)"
  by (simp add: audit_contract_def library_lookup path_of_def
      audit_contract_risks_def call_llm_def stub_fields reraise_def Let_def
      save_document_metadata_def library_counters metadata_path_def METADATA_DIR_def)

lemma stub_uuid4_inj: "inj_on (uuid4 (stub a)) A"
  by (simp add: stub_def inj_on_def)

lemma fresh_two: "fresh_files (stub a) empty_state [pdf_a, pdf_b]"
  by (simp add: fresh_files_def inj_on_def stub_def less_Suc_eq empty_state_def
      metadata_path_def METADATA_DIR_def upload_path_def UPLOAD_DIR_def pdf_a_def pdf_b_def
      listed_def endswith_def Let_def)

lemma ingest_one:
  "fst (ingest_file (stub a) empty_state pdf_a) = Inr (''u'', 1)"
  by (simp add: ingest_file_def create_vector_db_def load_pdf_def
      chunk_documents_def tag_chunk_def save_document_metadata_def upload_path_def UPLOAD_DIR_def
      metadata_path_def METADATA_DIR_def
      stub_def empty_state_def pdf_a_def endswith_pdf Let_def)

lemma fresh_one: "fresh_files (stub a) empty_state [pdf_a]"
  by (simp add: fresh_files_def inj_on_def stub_def empty_state_def
      metadata_path_def METADATA_DIR_def upload_path_def UPLOAD_DIR_def pdf_a_def
      listed_def endswith_def Let_def)

section \<open>The claims\<close>

text \<open>
  C1. For every /ask request that supplies a non-empty \<^verbatim>\<open>document_ids\<close> allow-list, every
  citation of the response has a document identifier that is a member of that allow-list.
\<close>

theorem ask_citations_in_allow_list:
  assumes "ids \<noteq> []"
    and "ask_question_api e s question (Some ids) k = (Inr (AskResponse q a cs), s')"
  shows "\<forall>c \<in> set cs. citation_document_id c \<in> set ids"
proof -
  from assms(1) obtain i rest where ids: "ids = i # rest" by (cases ids) auto
  from assms(2) obtain docs s1 where
    ask: "ask_question e s question (load_vector_db s) k (Some ids) = (Inr (a, docs), s1)"
    and cit: "build_citations e [] docs = Inr cs"
    by (auto simp: ask_question_api_def Let_def reraise_def
        split: option.splits sum.splits prod.splits exn.splits)
  have "\<forall>d \<in> set docs. in_allow_list d ids"
  proof (cases "similarity_search e (load_vector_db s) question (k * 5)")
    case None
    with ask ids show ?thesis by (simp add: ask_question_def retrieve_def)
  next
    case (Some all_docs)
    have allowed: "\<forall>d \<in> set (filter_loop k ids [] all_docs). in_allow_list d ids"
      by (rule filter_loop_allowed) simp
    from ask ids Some have "docs = [] \<or> docs = filter_loop k ids [] all_docs"
      by (auto simp: ask_question_def retrieve_def Let_def split: if_splits prod.splits sum.splits)
    with allowed show ?thesis by auto
  qed
  from build_citations_ids [OF this _ cit] show ?thesis by simp
qed

theorem ask_citations_in_allow_list_witness:
  "[''u''] \<noteq> [] \<and>
   ask_question_api (stub ''ans'') library ''q'' (Some [''u'']) 3 =
     (Inr (AskResponse ''q'' ''ans'' [Citation ''u'' (Some 0) ''Alpha agreement'']),
      library\<lparr>llm_log := [(QA_SYSTEM, ''Context:'' @ nl @ ''Alpha agreement'' @ nl @ nl @ ''Question: q'')],
              total_questions := 1\<rparr>) \<and>
   citation_document_id (Citation ''u'' (Some 0) ''Alpha agreement'') \<in> set [''u'']"
  using ask_citations_in_allow_list [OF _ ask_library_u] ask_library_u by simp

text \<open>
  C2. When the response of the language model to an /extract request is not valid JSON
  (\<^verbatim>\<open>json.loads\<close> raises \<^verbatim>\<open>JSONDecodeError\<close>), the request succeeds and returns the
  \<^verbatim>\<open>ContractFields\<close> structure with every field at its default. The fallback of
  \<^verbatim>\<open>extract_contract_fields\<close> catches this exception only.
\<close>

theorem extract_invalid_json_gives_empty_fields:
  assumes "load_document_metadata e s document_id = Inr (JDict md)"
    and "pdf_missing e s (get md ''file_path'') = Inr False"
    and "load_pdf e s (path_of (get md ''file_path'')) = Inr docs"
    and "llm e (EXTRACT_SYSTEM, ''Contract text:'' @ nl @ nl @ take 8000 (join nl (map page_content docs))) = Some resp"
    and "json_loads e resp = None"
  shows "fst (extract_fields e s document_id) = Inr (ExtractResponse document_id ContractFields_default)"
  using assms
  by (simp add: extract_fields_def extract_contract_fields_def call_llm_def Let_def)

theorem extract_invalid_json_gives_empty_fields_witness:
  "load_document_metadata (stub ''nonsense'') library ''u'' = Inr (JDict md_a) \<and>
   pdf_missing (stub ''nonsense'') library (get md_a ''file_path'') = Inr False \<and>
   llm (stub ''nonsense'') (EXTRACT_SYSTEM, ''Contract text:'' @ nl @ nl @ ''Alpha agreement'') = Some ''nonsense'' \<and>
   json_loads (stub ''nonsense'') ''nonsense'' = None \<and>
   fst (extract_fields (stub ''nonsense'') library ''u'') = Inr (ExtractResponse ''u'' ContractFields_default)"
  using extract_invalid_json_gives_empty_fields
    [of "stub ''nonsense''" library "''u''" md_a _ "''nonsense''"]
  by (simp add: library_lookup stub_fields path_of_def)

text \<open>
  A response that is valid JSON and does not fit the \<^verbatim>\<open>ContractFields\<close> schema is not
  degraded: for the response \<^verbatim>\<open>[]\<close>, \<^verbatim>\<open>ContractFields(**fields_dict)\<close> raises a
  \<^verbatim>\<open>TypeError\<close>, and the endpoint answers with status 500.
\<close>

theorem extract_schema_failure_gives_500:
  "llm (stub ''[]'') (EXTRACT_SYSTEM, ''Contract text:'' @ nl @ nl @ ''Alpha agreement'') = Some ''[]'' \<and>
   json_loads (stub ''[]'') ''[]'' = Some (JList []) \<and>
   fst (extract_fields (stub ''[]'') library ''u'') =
     Inl (HTTPException 500 ''Error extracting fields: TypeError'') \<and>
   fst (extract_fields (stub ''[]'') library ''u'') \<noteq> Inr (ExtractResponse ''u'' ContractFields_default)"
  by (simp add: extract_array stub_fields)

text \<open>
  C3. An /ingest request with a file whose name does not end in \<^verbatim>\<open>.pdf\<close> should be
  answered with status 400. The \<^verbatim>\<open>HTTPException(400)\<close> is raised inside the
  \<^verbatim>\<open>try\<close> of the endpoint, whose only clause is \<^verbatim>\<open>except Exception\<close>: the
  response has status 500. Nothing is stored.
\<close>

theorem ingest_non_pdf_gives_500:
  "ingest_contracts e s [notes_txt] =
     (Inl (HTTPException 500
             (''Error during ingestion: '' @ exn_str e (HTTPException 400 ''File notes.txt is not a PDF''))),
      s)"
  by (simp add: ingest_contracts_def ingest_file_def notes_txt_def endswith_pdf)

text \<open>
  C4. For an /ask request with a non-empty allow-list and a bound \<open>k\<close>, the citations of the
  response are those of the first \<open>k\<close> chunks, in search order, among the \<open>5 * k\<close> results
  of the similarity search whose document identifier is in the allow-list. So fewer than
  \<open>k\<close> citations can come back while the index holds more allow-listed chunks: with the
  sparse index and \<open>k = 2\<close> the ten results hold one chunk of \<open>u\<close>, one citation is
  returned, and the second chunk of \<open>u\<close> is never seen.
\<close>

theorem ask_overfetches_filters_truncates:
  "(ids \<noteq> [] \<and> 1 \<le> k \<and>
    similarity_search e (load_vector_db s) question (5 * k) = Some all_docs \<and>
    ask_question_api e s question (Some ids) k = (Inr (AskResponse q a cs), s') \<longrightarrow>
      build_citations e [] (take k (filter (\<lambda>d. in_allow_list d ids) all_docs)) = Inr cs \<and>
      length cs = min k (length (filter (\<lambda>d. in_allow_list d ids) all_docs))) \<and>
   (fst (ask_question_api (stub ''ans'') (library\<lparr>chroma := sparse_index\<rparr>) ''q'' (Some [''u'']) 2) =
      Inr (AskResponse ''q'' ''ans'' [Citation ''u'' (Some 0) ''Alpha agreement'']) \<and>
    filter (\<lambda>d. in_allow_list d [''u'']) (chroma (library\<lparr>chroma := sparse_index\<rparr>)) = [chunk_a, chunk_a])"
proof (intro conjI impI)
  assume h: "ids \<noteq> [] \<and> 1 \<le> k \<and>
    similarity_search e (load_vector_db s) question (5 * k) = Some all_docs \<and>
    ask_question_api e s question (Some ids) k = (Inr (AskResponse q a cs), s')"
  then show c: "build_citations e [] (take k (filter (\<lambda>d. in_allow_list d ids) all_docs)) = Inr cs"
    using ask_allow_list_docs by blast
  from build_citations_length [OF c]
  show "length cs = min k (length (filter (\<lambda>d. in_allow_list d ids) all_docs))"
    by (simp add: min.commute)
next
  show "fst (ask_question_api (stub ''ans'') (library\<lparr>chroma := sparse_index\<rparr>) ''q'' (Some [''u'']) 2) =
      Inr (AskResponse ''q'' ''ans'' [Citation ''u'' (Some 0) ''Alpha agreement''])"
    by (simp add: ask_sparse)
next
  show "filter (\<lambda>d. in_allow_list d [''u'']) (chroma (library\<lparr>chroma := sparse_index\<rparr>)) = [chunk_a, chunk_a]"
    by (simp add: sparse_index_def in_allow_list_def get_def get_default_def chunk_a_def chunk_b_def)
qed

theorem ask_overfetches_filters_truncates_witness:
  "[''uu''] \<noteq> [] \<and> (1::nat) \<le> 1 \<and>
   similarity_search (stub ''ans'') (load_vector_db (library\<lparr>chroma := [chunk_a, chunk_b, chunk_b]\<rparr>)) ''q'' (5 * 1) =
     Some [chunk_a, chunk_b, chunk_b] \<and>
   ask_question_api (stub ''ans'') (library\<lparr>chroma := [chunk_a, chunk_b, chunk_b]\<rparr>) ''q'' (Some [''uu'']) 1 =
     (Inr (AskResponse ''q'' ''ans'' [Citation ''uu'' (Some 0) ''Beta agreement'']),
      library\<lparr>chroma := [chunk_a, chunk_b, chunk_b],
              llm_log := [(QA_SYSTEM, ''Context:'' @ nl @ ''Beta agreement'' @ nl @ nl @ ''Question: q'')],
              total_questions := 1\<rparr>) \<and>
   build_citations (stub ''ans'') [] (take 1 (filter (\<lambda>d. in_allow_list d [''uu'']) [chunk_a, chunk_b, chunk_b])) =
     Inr [Citation ''uu'' (Some 0) ''Beta agreement''] \<and>
   length [Citation ''uu'' (Some 0) ''Beta agreement''] =
     min 1 (length (filter (\<lambda>d. in_allow_list d [''uu'']) [chunk_a, chunk_b, chunk_b]))"
proof -
  have run: "ask_question_api (stub ''ans'') (library\<lparr>chroma := [chunk_a, chunk_b, chunk_b]\<rparr>) ''q'' (Some [''uu'']) 1 =
     (Inr (AskResponse ''q'' ''ans'' [Citation ''uu'' (Some 0) ''Beta agreement'']),
      library\<lparr>chroma := [chunk_a, chunk_b, chunk_b],
              llm_log := [(QA_SYSTEM, ''Context:'' @ nl @ ''Beta agreement'' @ nl @ nl @ ''Question: q'')],
              total_questions := 1\<rparr>)"
    by (simp add: ask_question_api_def ask_question_def retrieve_def first_unknown_def
      path_exists_def metadata_path_def METADATA_DIR_def
      load_vector_db_def call_llm_def make_Citation_def pydantic_str_def pydantic_optional_int_def
      get_def get_default_def in_allow_list_def stub_def library_def chunk_a_def chunk_b_def
      nl_def Let_def)
  have search: "similarity_search (stub ''ans'') (load_vector_db (library\<lparr>chroma := [chunk_a, chunk_b, chunk_b]\<rparr>)) ''q'' (5 * 1) =
     Some [chunk_a, chunk_b, chunk_b]"
    by (simp add: stub_def load_vector_db_def)
  have pre: "[''uu''] \<noteq> [] \<and> (1::nat) \<le> 1" by simp
  from ask_overfetches_filters_truncates
    [of "[''uu'']" 1 "stub ''ans''" "library\<lparr>chroma := [chunk_a, chunk_b, chunk_b]\<rparr>" "''q''"
        "[chunk_a, chunk_b, chunk_b]" "''q''" "''ans''" "[Citation ''uu'' (Some 0) ''Beta agreement'']"]
    pre search run
  show ?thesis by blast
qed

text \<open>
  C5. When the retrieval of an /ask request (after any allow-list filtering) yields no chunk, the
  operation returns the fixed answer text with an empty citation list, and the language model
  is not called: the log of its calls is as before.
\<close>

theorem ask_empty_retrieval_fixed_answer:
  assumes "first_unknown e s document_ids = None"
    and "retrieve e (load_vector_db s) question k document_ids = Inr []"
  shows "ask_question_api e s question document_ids k =
           (Inr (AskResponse question ''No relevant information found in the specified documents.'' []),
            s\<lparr>total_questions := total_questions s + 1\<rparr>) \<and>
         llm_log (snd (ask_question_api e s question document_ids k)) = llm_log s"
  using assms by (simp add: ask_question_api_def ask_question_def Let_def)

theorem ask_empty_retrieval_fixed_answer_witness:
  "first_unknown (stub ''ans'') empty_state None = None \<and>
   retrieve (stub ''ans'') (load_vector_db empty_state) ''q'' 3 None = Inr [] \<and>
   ask_question_api (stub ''ans'') empty_state ''q'' None 3 =
     (Inr (AskResponse ''q'' ''No relevant information found in the specified documents.'' []),
      empty_state\<lparr>total_questions := total_questions empty_state + 1\<rparr>) \<and>
   llm_log (snd (ask_question_api (stub ''ans'') empty_state ''q'' None 3)) = llm_log empty_state"
proof -
  have h1: "first_unknown (stub ''ans'') empty_state None = None"
    by (simp add: first_unknown_def)
  have h2: "retrieve (stub ''ans'') (load_vector_db empty_state) ''q'' 3 None = Inr []"
    by (simp add: retrieve_def load_vector_db_def stub_def empty_state_def)
  from ask_empty_retrieval_fixed_answer [OF h1 h2] h1 h2 show ?thesis by simp
qed

text \<open>
  C6. A successful /ingest request of N files returns N identifiers, pairwise distinct, and
  a \<open>total_chunks\<close> that is the sum over the files of the number of windows that chunking
  the file produces. The identifiers are the values of \<^verbatim>\<open>uuid.uuid4()\<close>, which the code
  does not compare: they are distinct when the generator gives distinct values for these
  calls.
\<close>

theorem ingest_ids_distinct_and_total_chunks:
  assumes "ingest_contracts e s files = (Inr (IngestResponse ids msg tc), s')"
    and "inj_on (uuid4 e) {uuid_calls s ..< uuid_calls s + length files}"
  shows "length ids = length files \<and> distinct ids \<and>
         tc = sum_list (map2 (window_count e) ids files)"
proof -
  from assms(1) obtain s1 where "ingest_loop e files [] 0 s = (Inr (ids, tc), s1)"
    by (auto simp: ingest_contracts_def split: if_splits prod.splits sum.splits)
  from ingest_loop_result [OF this]
  have ids: "ids = map (uuid4 e) [uuid_calls s ..< uuid_calls s + length files]"
    and tc: "tc = sum_list (map2 (window_count e) ids files)"
    by simp_all
  from ids assms(2) have "distinct ids"
    by (simp add: distinct_map)
  with ids tc show ?thesis by simp
qed

theorem ingest_ids_distinct_and_total_chunks_witness:
  "ingest_contracts (stub ''ans'') empty_state [pdf_a, pdf_b] =
     (Inr (IngestResponse [''u'', ''uu''] ''Successfully ingested 2 document(s)'' 2), library) \<and>
   inj_on (uuid4 (stub ''ans'')) {uuid_calls empty_state ..< uuid_calls empty_state + length [pdf_a, pdf_b]} \<and>
   length [''u'', ''uu''] = length [pdf_a, pdf_b] \<and> distinct [''u'', ''uu''] \<and>
   (2::nat) = sum_list (map2 (window_count (stub ''ans'')) [''u'', ''uu''] [pdf_a, pdf_b])"
  using ingest_ids_distinct_and_total_chunks [OF ingest_two stub_uuid4_inj, of "''ans''"]
    ingest_two [of "''ans''"] stub_uuid4_inj
  by simp



text \<open>
  C8. When the output of the language model for /audit is malformed (it is no JSON, it cannot
  be iterated, or one of its elements is no valid \<^verbatim>\<open>RiskFinding\<close>), the request succeeds
  with an empty list of findings and \<open>total_risks = 0\<close>.
\<close>

theorem audit_malformed_output_gives_no_findings:
  assumes "load_document_metadata e s document_id = Inr (JDict md)"
    and "pdf_missing e s (get md ''file_path'') = Inr False"
    and "load_pdf e s (path_of (get md ''file_path'')) = Inr docs"
    and "llm e (AUDIT_SYSTEM, ''Analyze this contract for risks:'' @ nl @ nl @
                 take 10000 (join nl (map page_content docs))) = Some resp"
    and "json_loads e resp = None \<or>
         (\<exists>j. json_loads e resp = Some j \<and>
              (py_iter j = None \<or> (\<exists>xs. py_iter j = Some xs \<and> risk_findings e xs = None)))"
  shows "fst (audit_contract e s document_id) =
           Inr (AuditResponse document_id 0 [] (now_isoformat e (clock_calls s)))"
  using assms
  by (auto simp: audit_contract_def audit_contract_risks_def call_llm_def Let_def)

theorem audit_malformed_output_gives_no_findings_witness:
  "load_document_metadata (stub ''0'') library ''u'' = Inr (JDict md_a) \<and>
   pdf_missing (stub ''0'') library (get md_a ''file_path'') = Inr False \<and>
   llm (stub ''0'') (AUDIT_SYSTEM, ''Analyze this contract for risks:'' @ nl @ nl @ ''Alpha agreement'') = Some ''0'' \<and>
   json_loads (stub ''0'') ''0'' = Some (JInt 0) \<and> py_iter (JInt 0) = None \<and>
   fst (audit_contract (stub ''0'') library ''u'') =
     Inr (AuditResponse ''u'' 0 [] ''2024-01-01T00:00:02'')"
  using audit_malformed_output_gives_no_findings
    [of "stub ''0''" library "''u''" md_a _ "''0''"]
  by (simp add: library_lookup stub_fields path_of_def library_counters)

text \<open>
  C9. After every sequence of ingest, extract and audit requests the \<open>total_documents\<close> of
  /metrics is the number of metadata files in the metadata directory. Extract and audit leave
  the set of metadata files as it is; the ingestion of one file adds exactly one metadata
  file, and a successful request of N files adds N, when the generated identifiers name new
  files of the metadata directory.
\<close>

theorem metrics_total_documents:
  "total_documents (get_metrics e (serve_all e s reqs)) = card (metadata_files e (serve_all e s reqs)) \<and>
   metadata_files e (snd (extract_fields e s document_id)) = metadata_files e s \<and>
   metadata_files e (snd (audit_contract e s document_id)) = metadata_files e s \<and>
   (ingest_file e s f = (Inr r1, s1) \<and> finite (dom (disk s)) \<and> fresh_files e s [f] \<longrightarrow>
      card (metadata_files e s1) = card (metadata_files e s) + 1) \<and>
   (ingest_contracts e s files = (Inr r, s') \<and> finite (dom (disk s)) \<and> fresh_files e s files \<longrightarrow>
      card (metadata_files e s') = card (metadata_files e s) + length files)"
proof (intro conjI impI)
  show "total_documents (get_metrics e (serve_all e s reqs)) = card (metadata_files e (serve_all e s reqs))"
    by (simp add: get_metrics_def)
  show "metadata_files e (snd (extract_fields e s document_id)) = metadata_files e s"
    by (rule metadata_files_cong) (rule extract_fields_dom)
  show "metadata_files e (snd (audit_contract e s document_id)) = metadata_files e s"
    by (rule metadata_files_cong) (rule audit_contract_dom)
next
  assume h: "ingest_file e s f = (Inr r1, s1) \<and> finite (dom (disk s)) \<and> fresh_files e s [f]"
  then have "listed e (realpath e (metadata_path (uuid4 e (uuid_calls s))))"
    "realpath e (metadata_path (uuid4 e (uuid_calls s))) \<notin> dom (disk s)"
    "\<not> listed e (realpath e (upload_path (uuid4 e (uuid_calls s)) (filename f)))"
    by (simp_all add: fresh_files_def)
  with h show "card (metadata_files e s1) = card (metadata_files e s) + 1"
    using ingest_file_adds_one by blast
next
  assume "ingest_contracts e s files = (Inr r, s') \<and> finite (dom (disk s)) \<and> fresh_files e s files"
  then show "card (metadata_files e s') = card (metadata_files e s) + length files"
    using ingest_contracts_adds by blast
qed

theorem metrics_total_documents_witness:
  "fst (ingest_file (stub ''{}'') empty_state pdf_a) = Inr (''u'', 1) \<and>
   fresh_files (stub ''{}'') empty_state [pdf_a] \<and>
   card (metadata_files (stub ''{}'') (snd (ingest_file (stub ''{}'') empty_state pdf_a))) = 1 \<and>
   ingest_contracts (stub ''{}'') empty_state [pdf_a, pdf_b] =
     (Inr (IngestResponse [''u'', ''uu''] ''Successfully ingested 2 document(s)'' 2), library) \<and>
   finite (dom (disk empty_state)) \<and>
   fresh_files (stub ''{}'') empty_state [pdf_a, pdf_b] \<and>
   card (metadata_files (stub ''{}'') library) = 2 \<and>
   total_documents (get_metrics (stub ''{}'')
     (serve_all (stub ''{}'') empty_state [Ingest [pdf_a, pdf_b], Extract ''u'', Audit ''u''])) = 2"
proof -
  let ?e = "stub ''{}''"
  let ?reqs = "[Ingest [pdf_a, pdf_b], Extract ''u'', Audit ''u'']"
  let ?s1 = "snd (ingest_file ?e empty_state pdf_a)"
  let ?sx = "snd (extract_fields ?e library ''u'')"
  have fin: "finite (dom (disk empty_state))" and none: "metadata_files ?e empty_state = {}"
    by (simp_all add: empty_state_def metadata_files_def)
  have one: "ingest_file ?e empty_state pdf_a = (Inr (''u'', 1), ?s1)"
    using ingest_one [of "''{}''"] by (simp add: prod_eq_iff)
  note two = ingest_two [of "''{}''"]
  note t0 = metrics_total_documents
    [of ?e empty_state ?reqs "''u''" pdf_a "(''u'', 1)" ?s1 "[pdf_a, pdf_b]"
        "IngestResponse [''u'', ''uu''] ''Successfully ingested 2 document(s)'' 2" library]
  note t1 = metrics_total_documents [of ?e library "[]" "''u''"]
  note t2 = metrics_total_documents [of ?e ?sx "[]" "''u''"]
  from t0 one fin fresh_one have c1: "card (metadata_files ?e ?s1) = 1"
    by (simp add: none)
  from t0 two fin fresh_two have c2: "card (metadata_files ?e library) = 2"
    by (simp add: none)
  have run: "serve_all ?e empty_state ?reqs = snd (audit_contract ?e ?sx ''u'')"
    by (simp add: serve_all_def two)
  from t0 have "total_documents (get_metrics ?e (serve_all ?e empty_state ?reqs)) =
      card (metadata_files ?e (serve_all ?e empty_state ?reqs))" by simp
  also from t2 have "\<dots> = card (metadata_files ?e ?sx)" by (simp add: run)
  also from t1 have "\<dots> = card (metadata_files ?e library)" by simp
  finally have "total_documents (get_metrics ?e (serve_all ?e empty_state ?reqs)) = 2"
    using c2 by simp
  with c1 c2 two fin fresh_one fresh_two ingest_one [of "''{}''"] show ?thesis by simp
qed

text \<open>
  C10. A successful /extract changes the stored metadata record in the keys
  \<^verbatim>\<open>extracted_fields\<close> and \<^verbatim>\<open>extraction_date\<close> only, a successful /audit in the key
  \<^verbatim>\<open>audit_results\<close> only: every other key of the record keeps its value.
\<close>

theorem extract_audit_frame:
  "(extract_fields e s document_id = (Inr r, s') \<longrightarrow>
      (\<exists>md md'. load_document_metadata e s document_id = Inr (JDict md) \<and>
         load_document_metadata e s' document_id = Inr (JDict md') \<and>
         (\<forall>k. k \<noteq> ''extracted_fields'' \<and> k \<noteq> ''extraction_date'' \<longrightarrow> map_of md' k = map_of md k))) \<and>
   (audit_contract e s document_id = (Inr r', s'') \<longrightarrow>
      (\<exists>md md'. load_document_metadata e s document_id = Inr (JDict md) \<and>
         load_document_metadata e s'' document_id = Inr (JDict md') \<and>
         (\<forall>k. k \<noteq> ''audit_results'' \<longrightarrow> map_of md' k = map_of md k)))"
proof (intro conjI impI)
  assume "extract_fields e s document_id = (Inr r, s')"
  from extract_fields_success [OF this] obtain md cf t where
    md: "load_document_metadata e s document_id = Inr (JDict md)"
    and d: "disk s' = (disk s)(realpath e (metadata_path document_id) \<mapsto>
              Json (JDict (AList.update ''extraction_date'' (JStr t)
                             (AList.update ''extracted_fields'' (ContractFields_dict cf) md))))"
    by blast
  let ?md' = "AList.update ''extraction_date'' (JStr t)
                (AList.update ''extracted_fields'' (ContractFields_dict cf) md)"
  from d have "load_document_metadata e s' document_id = Inr (JDict ?md')"
    by (simp add: load_document_metadata_def path_exists_def)
  moreover have "\<forall>k. k \<noteq> ''extracted_fields'' \<and> k \<noteq> ''extraction_date'' \<longrightarrow> map_of ?md' k = map_of md k"
    by (simp add: map_of_update_other)
  ultimately show "\<exists>md md'. load_document_metadata e s document_id = Inr (JDict md) \<and>
         load_document_metadata e s' document_id = Inr (JDict md') \<and>
         (\<forall>k. k \<noteq> ''extracted_fields'' \<and> k \<noteq> ''extraction_date'' \<longrightarrow> map_of md' k = map_of md k)"
    using md by blast
next
  assume "audit_contract e s document_id = (Inr r', s'')"
  from audit_contract_success [OF this] obtain md v where
    md: "load_document_metadata e s document_id = Inr (JDict md)"
    and d: "disk s'' = (disk s)(realpath e (metadata_path document_id) \<mapsto>
              Json (JDict (AList.update ''audit_results'' v md)))"
    by blast
  from d have "load_document_metadata e s'' document_id = Inr (JDict (AList.update ''audit_results'' v md))"
    by (simp add: load_document_metadata_def path_exists_def)
  moreover have "\<forall>k. k \<noteq> ''audit_results'' \<longrightarrow> map_of (AList.update ''audit_results'' v md) k = map_of md k"
    by (simp add: map_of_update_other)
  ultimately show "\<exists>md md'. load_document_metadata e s document_id = Inr (JDict md) \<and>
         load_document_metadata e s'' document_id = Inr (JDict md') \<and>
         (\<forall>k. k \<noteq> ''audit_results'' \<longrightarrow> map_of md' k = map_of md k)"
    using md by blast
qed

theorem extract_audit_frame_witness:
  "fst (extract_fields (stub ''{}'') library ''u'') = Inr (ExtractResponse ''u'' ContractFields_default) \<and>
   fst (audit_contract (stub ''{}'') library ''u'') = Inr (AuditResponse ''u'' 0 [] ''2024-01-01T00:00:02'') \<and>
   (\<exists>md'. load_document_metadata (stub ''{}'') (snd (extract_fields (stub ''{}'') library ''u'')) ''u'' = Inr (JDict md') \<and>
          map_of md' ''filename'' = map_of md_a ''filename'' \<and>
          map_of md' ''file_path'' = map_of md_a ''file_path'' \<and>
          map_of md' ''num_chunks'' = map_of md_a ''num_chunks'') \<and>
   (\<exists>md'. load_document_metadata (stub ''{}'') (snd (audit_contract (stub ''{}'') library ''u'')) ''u'' = Inr (JDict md') \<and>
          map_of md' ''filename'' = map_of md_a ''filename'' \<and>
          map_of md' ''file_path'' = map_of md_a ''file_path'' \<and>
          map_of md' ''num_chunks'' = map_of md_a ''num_chunks'')"
proof -
  obtain r s' where ex: "extract_fields (stub ''{}'') library ''u'' = (Inr r, s')"
    and r: "r = ExtractResponse ''u'' ContractFields_default"
    using extract_object by blast
  obtain r' s'' where au: "audit_contract (stub ''{}'') library ''u'' = (Inr r', s'')"
    and r': "r' = AuditResponse ''u'' 0 [] ''2024-01-01T00:00:02''"
    using audit_object by blast
  from extract_audit_frame [of "stub ''{}''" library "''u''" r s' r' s''] ex au
  obtain md md1 md2 where "load_document_metadata (stub ''{}'') library ''u'' = Inr (JDict md)"
    and "load_document_metadata (stub ''{}'') s' ''u'' = Inr (JDict md1)"
    and f1: "\<forall>k. k \<noteq> ''extracted_fields'' \<and> k \<noteq> ''extraction_date'' \<longrightarrow> map_of md1 k = map_of md k"
    and "load_document_metadata (stub ''{}'') s'' ''u'' = Inr (JDict md2)"
    and f2: "\<forall>k. k \<noteq> ''audit_results'' \<longrightarrow> map_of md2 k = map_of md k"
    by auto
  moreover from this have "md = md_a" by (simp add: library_lookup)
  moreover from f1 have "map_of md1 ''filename'' = map_of md ''filename''"
    "map_of md1 ''file_path'' = map_of md ''file_path''"
    "map_of md1 ''num_chunks'' = map_of md ''num_chunks''" by simp_all
  moreover from f2 have "map_of md2 ''filename'' = map_of md ''filename''"
    "map_of md2 ''file_path'' = map_of md ''file_path''"
    "map_of md2 ''num_chunks'' = map_of md ''num_chunks''" by simp_all
  ultimately show ?thesis using ex au r r' by simp
qed

end
